theory Spec2Isabelle
  imports Complex_Main
begin

section \<open>PyRaysum: the model, the ray geometry and the receiver-function pipelines\<close>

text \<open>
  A shallow embedding of \<^verbatim>\<open>pyraysum/prs.py\<close>. NumPy's floating-point arrays are lists
  of reals (the arithmetic is idealised: no rounding, and a quotient is only ever stated
  about where its divisor is not zero), integer arrays are lists of integers, Python's
  attributes are record fields and every exception the source can raise is a value.
  Array positions are natural numbers: Python's negative positions are not part of the
  embedding.
\<close>

subsection \<open>Exceptions\<close>

datatype error = ValueError | IndexError | KeyError | TypeError | UnboundLocalError | Exception

subsection \<open>The ray geometry\<close>

text \<open>
  An argument that \<^verbatim>\<open>Geometry.__init__\<close> accepts either as a single number or as a
  sequence of numbers.
\<close>

datatype 'a arg = Scalar 'a | Array "'a list"

fun as_list :: "'a arg \<Rightarrow> 'a list" where
  "as_list (Scalar v) = [v]"
| "as_list (Array vs) = vs"

record Geometry =
  geom :: "(real \<times> real) list"
  baz :: "real list"
  slow :: "real list"
  ntr :: nat
  dx :: "real list"
  dy :: "real list"
  fbaz :: "real list"
  fslow :: "real list"
  fdx :: "real list"
  fdy :: "real list"

text \<open>\<^verbatim>\<open>np.zeros(k)\<close>: a negative length is a \<^verbatim>\<open>ValueError\<close>.\<close>

definition np_zeros :: "int \<Rightarrow> error + real list" where
  "np_zeros k = (if k < 0 then Inl ValueError else Inr (replicate (nat k) 0))"

text \<open>
  The two lines \<^verbatim>\<open>if len(self.dx) != self.ntr: self.dx = np.full(self.ntr, self.dx[0])\<close>:
  reading position 0 of an empty array is an \<^verbatim>\<open>IndexError\<close>.
\<close>

definition fill_offsets :: "nat \<Rightarrow> real list \<Rightarrow> error + real list" where
  "fill_offsets n offs =
     (if length offs \<noteq> n
      then (case offs of [] \<Rightarrow> Inl IndexError | d # _ \<Rightarrow> Inr (replicate n d))
      else Inr offs)"

text \<open>
  \<^verbatim>\<open>Geometry.__init__\<close>. The list comprehension runs over the slownesses in its outer
  loop and over the backazimuths in its inner loop; unpacking \<^verbatim>\<open>zip(*self.geom)\<close> into
  two names raises \<^verbatim>\<open>ValueError\<close> when there is no sample at all.
\<close>

definition Geometry_init ::
  "real arg \<Rightarrow> real arg \<Rightarrow> real list \<Rightarrow> real list \<Rightarrow> int \<Rightarrow> error + Geometry" where
  "Geometry_init baz0 slow0 dx0 dy0 maxtr =
     (let bs = as_list baz0;
          ss = as_list slow0;
          g = (if length bs \<noteq> length ss
               then concat (map (\<lambda>s. map (\<lambda>b. (b, s)) bs) ss)
               else zip bs ss)
      in if g = [] then Inl ValueError
         else
           let bz = map fst g;
               sl = map snd g;
               n = length bz
           in case fill_offsets n dx0 of
                Inl e \<Rightarrow> Inl e
              | Inr dxs \<Rightarrow>
                  (case fill_offsets n dy0 of
                     Inl e \<Rightarrow> Inl e
                   | Inr dys \<Rightarrow>
                       (case np_zeros (maxtr - int n) of
                          Inl e \<Rightarrow> Inl e
                        | Inr tail \<Rightarrow>
                            Inr \<lparr>geom = g, baz = bz, slow = sl, ntr = n,
                                 dx = dxs, dy = dys,
                                 fbaz = map (\<lambda>x. x * pi / 180) (bz @ tail),
                                 fslow = map (\<lambda>x. x * (1 / 1000)) (sl @ tail),
                                 fdx = dxs @ tail,
                                 fdy = dys @ tail\<rparr>)))"

subsection \<open>Outcomes of a method that changes its object\<close>

text \<open>
  A method either returns, leaving the object in a new state, or raises, leaving the
  object in the state it had reached when the exception left the method.
\<close>

datatype 's outcome = Returns 's | Raises error 's

definition then_do :: "'s outcome \<Rightarrow> ('s \<Rightarrow> 's outcome) \<Rightarrow> 's outcome" where
  "then_do r f = (case r of Returns s \<Rightarrow> f s | Raises e s \<Rightarrow> Raises e s)"

subsection \<open>NumPy on one-dimensional arrays\<close>

text \<open>
  An elementwise operation of two arrays: equal lengths pair up, an array of length 1 is
  broadcast against the other, any other pair of lengths is a \<^verbatim>\<open>ValueError\<close>.
\<close>

definition np_bcast :: "('a \<Rightarrow> 'b \<Rightarrow> 'c) \<Rightarrow> 'a list \<Rightarrow> 'b list \<Rightarrow> error + 'c list" where
  "np_bcast f xs ys =
     (if length xs = length ys then Inr (map (\<lambda>(x, y). f x y) (zip xs ys))
      else if length xs = 1 then Inr (map (f (hd xs)) ys)
      else if length ys = 1 then Inr (map (\<lambda>x. f x (hd ys)) xs)
      else Inl ValueError)"



text \<open>\<^verbatim>\<open>np.delete(a, n)\<close>.\<close>

definition np_delete :: "nat \<Rightarrow> 'a list \<Rightarrow> 'a list outcome" where
  "np_delete n xs =
     (if n < length xs then Returns (take n xs @ drop (Suc n) xs)
      else Raises IndexError xs)"


subsection \<open>The velocity model\<close>

text \<open>
  The density array holds \<^verbatim>\<open>None\<close> in every layer when the constructor is given no
  density, hence the optional entries. The layer count and the capacity are Python
  integers.
\<close>

record Model =
  nlay :: int
  thickn :: "real list"
  rho :: "real option list"
  vp :: "real list"
  vs :: "real list"
  vpvs :: "real list"
  flag :: "int list"
  ani :: "real list"
  trend :: "real list"
  plunge :: "real list"
  strike :: "real list"
  dip :: "real list"
  maxlay :: int
  fthickn :: "real list"
  frho :: "real option list"
  fvp :: "real list"
  fvs :: "real list"
  fflag :: "real list"
  fani :: "real list"
  ftrend :: "real list"
  fplunge :: "real list"
  fstrike :: "real list"
  fdip :: "real list"

text \<open>\<^verbatim>\<open>Model._set_fattributes\<close>.\<close>

definition set_fattributes :: "Model \<Rightarrow> Model outcome" where
  "set_fattributes m =
     (case np_zeros (maxlay m - nlay m) of
        Inl e \<Rightarrow> Raises e m
      | Inr tail \<Rightarrow>
          Returns (m\<lparr>fthickn := thickn m @ tail,
                     frho := rho m @ map Some tail,
                     fvp := vp m @ tail,
                     fvs := vs m @ tail,
                     fflag := map real_of_int (flag m) @ tail,
                     fani := ani m @ tail,
                     ftrend := map (\<lambda>x. x * pi / 180) (trend m @ tail),
                     fplunge := map (\<lambda>x. x * pi / 180) (plunge m @ tail),
                     fstrike := map (\<lambda>x. x * pi / 180) (strike m @ tail),
                     fdip := map (\<lambda>x. x * pi / 180) (dip m @ tail)\<rparr>))"

text \<open>
  \<^verbatim>\<open>Model.update\<close>. The test \<^verbatim>\<open>not fix\<close> holds of \<^verbatim>\<open>None\<close> and of the empty string.
\<close>

definition update :: "string option \<Rightarrow> Model \<Rightarrow> Model outcome" where
  "update fix m =
     (if fix = Some ''vp'' then
        (case np_bcast (/) (vp m) (vpvs m) of
           Inl e \<Rightarrow> Raises e m
         | Inr q \<Rightarrow> set_fattributes (m\<lparr>vs := q\<rparr>))
      else if fix = Some ''vs'' then
        (case np_bcast (*) (vs m) (vpvs m) of
           Inl e \<Rightarrow> Raises e m
         | Inr q \<Rightarrow> set_fattributes (m\<lparr>vp := q\<rparr>))
      else if fix = None \<or> fix = Some [] then
        (case np_bcast (/) (vp m) (vs m) of
           Inl e \<Rightarrow> Raises e m
         | Inr q \<Rightarrow> set_fattributes (m\<lparr>vpvs := q\<rparr>))
      else Raises ValueError m)"

text \<open>
  \<^verbatim>\<open>Model.__init__\<close>. An optional per-layer argument is absent, a single number or a
  sequence (\<^verbatim>\<open>_get_val\<close>); the flag is a single integer or a sequence.
\<close>

definition get_val :: "nat \<Rightarrow> real arg option \<Rightarrow> real list" where
  "get_val n v =
     (case v of
        None \<Rightarrow> replicate n 0
      | Some (Scalar x) \<Rightarrow> replicate n x
      | Some (Array xs) \<Rightarrow> xs)"

definition Model_init ::
  "real list \<Rightarrow> real list option \<Rightarrow> real list \<Rightarrow> real list \<Rightarrow> int arg \<Rightarrow>
   real arg option \<Rightarrow> real arg option \<Rightarrow> real arg option \<Rightarrow> real arg option \<Rightarrow>
   real arg option \<Rightarrow> int \<Rightarrow> error + Model" where
  "Model_init thickn0 rho0 vp0 vs0 flag0 ani0 trend0 plunge0 strike0 dip0 maxlay0 =
     (let n = length thickn0 in
      case np_bcast (/) vp0 vs0 of
        Inl e \<Rightarrow> Inl e
      | Inr q \<Rightarrow>
          (case set_fattributes
                  \<lparr>nlay = int n,
                   thickn = thickn0,
                   rho = (case rho0 of None \<Rightarrow> replicate n None | Some r \<Rightarrow> map Some r),
                   vp = vp0,
                   vs = vs0,
                   vpvs = q,
                   flag = (case flag0 of Scalar f \<Rightarrow> replicate n f | Array fs \<Rightarrow> fs),
                   ani = get_val n ani0,
                   trend = get_val n trend0,
                   plunge = get_val n plunge0,
                   strike = get_val n strike0,
                   dip = get_val n dip0,
                   maxlay = maxlay0,
                   fthickn = [], frho = [], fvp = [], fvs = [], fflag = [], fani = [],
                   ftrend = [], fplunge = [], fstrike = [], fdip = []\<rparr> of
             Raises e _ \<Rightarrow> Inl e
           | Returns m \<Rightarrow> Inr m))"

text \<open>
  The loop \<^verbatim>\<open>for att in self._useratts\<close>, in the order of that list: one step for the
  real-valued arrays, which is told the attribute's name, one for the densities and one
  for the flags. The first step that raises ends the loop.
\<close>

definition on_field ::
  "(Model \<Rightarrow> 'a list) \<Rightarrow> (('a list \<Rightarrow> 'a list) \<Rightarrow> Model \<Rightarrow> Model) \<Rightarrow>
   ('a list \<Rightarrow> 'a list outcome) \<Rightarrow> Model \<Rightarrow> Model outcome" where
  "on_field get upd f m =
     (case f (get m) of
        Returns xs \<Rightarrow> Returns (upd (\<lambda>_. xs) m)
      | Raises e xs \<Rightarrow> Raises e (upd (\<lambda>_. xs) m))"

definition for_useratts ::
  "(string \<Rightarrow> real list \<Rightarrow> real list outcome) \<Rightarrow>
   (real option list \<Rightarrow> real option list outcome) \<Rightarrow>
   (int list \<Rightarrow> int list outcome) \<Rightarrow> Model \<Rightarrow> Model outcome" where
  "for_useratts fr fo fi m =
     then_do (on_field thickn thickn_update (fr ''thickn'') m) (\<lambda>m.
     then_do (on_field rho rho_update fo m) (\<lambda>m.
     then_do (on_field vp vp_update (fr ''vp'') m) (\<lambda>m.
     then_do (on_field vs vs_update (fr ''vs'') m) (\<lambda>m.
     then_do (on_field vpvs vpvs_update (fr ''vpvs'') m) (\<lambda>m.
     then_do (on_field flag flag_update fi m) (\<lambda>m.
     then_do (on_field ani ani_update (fr ''ani'') m) (\<lambda>m.
     then_do (on_field trend trend_update (fr ''trend'') m) (\<lambda>m.
     then_do (on_field plunge plunge_update (fr ''plunge'') m) (\<lambda>m.
     then_do (on_field strike strike_update (fr ''strike'') m) (\<lambda>m.
     on_field dip dip_update (fr ''dip'') m))))))))))"



text \<open>\<^verbatim>\<open>Model.remove_layer\<close>.\<close>

definition remove_layer :: "nat \<Rightarrow> Model \<Rightarrow> Model outcome" where
  "remove_layer n m =
     then_do (for_useratts (\<lambda>_. np_delete n) (np_delete n) (np_delete n) m) (\<lambda>m.
     update None (m\<lparr>nlay := nlay m - 1\<rparr>))"





subsection \<open>Changing the model by command\<close>

text \<open>\<^verbatim>\<open>s.split(c)\<close> for a separator of one character.\<close>

fun split_on :: "char \<Rightarrow> string \<Rightarrow> string list" where
  "split_on c [] = [[]]"
| "split_on c (x # xs) =
     (if x = c then [] # split_on c xs
      else (case split_on c xs of [] \<Rightarrow> [[x]] | w # ws \<Rightarrow> (x # w) # ws))"

text \<open>
  The loop \<^verbatim>\<open>for sign in '=+-'\<close>: it stops at the first sign that splits the command in
  two, and otherwise ends with the minus sign and what that one split off.
\<close>

definition find_sign :: "string \<Rightarrow> char \<times> string list" where
  "find_sign command =
     (if length (split_on CHR ''='' command) = 2 then (CHR ''='', split_on CHR ''='' command)
      else if length (split_on CHR ''+'' command) = 2 then (CHR ''+'', split_on CHR ''+'' command)
      else (CHR ''-'', split_on CHR ''-'' command))"

definition is_digit :: "char \<Rightarrow> bool" where
  "is_digit c \<longleftrightarrow> c \<in> set ''0123456789''"

fun first_digit :: "string \<Rightarrow> nat option" where
  "first_digit [] = None"
| "first_digit (c # cs) = (if is_digit c then Some 0 else map_option Suc (first_digit cs))"

text \<open>
  The loop \<^verbatim>\<open>for n, char in enumerate(attlay)\<close>: \<open>n\<close> ends at the first digit, or at the
  last position when there is no digit. Over an empty text the loop body never runs and
  \<open>n\<close> keeps what an earlier command left in it, if anything.
\<close>

definition loop_index :: "nat option \<Rightarrow> string \<Rightarrow> nat option" where
  "loop_index n attlay =
     (if attlay = [] then n
      else (case first_digit attlay of Some i \<Rightarrow> Some i | None \<Rightarrow> Some (length attlay - 1)))"

text \<open>\<^verbatim>\<open>s.strip()\<close>, with the white space of Python among the first 256 code points.\<close>

definition is_space :: "char \<Rightarrow> bool" where
  "is_space c \<longleftrightarrow> (of_char c :: nat) \<in> {9, 10, 11, 12, 13, 28, 29, 30, 31, 32, 133, 160}"

definition strip :: "string \<Rightarrow> string" where
  "strip s = rev (dropWhile is_space (rev (dropWhile is_space s)))"

text \<open>The dictionary \<^verbatim>\<open>ATT\<close>, and \<^verbatim>\<open>self.__dict__[attribute]\<close> for the names it holds.\<close>

definition ATT :: "string \<Rightarrow> string option" where
  "ATT = map_of
     [(''t'', ''thickn''), (''vp'', ''vp''), (''vs'', ''vs''), (''psp'', ''vpvs''),
      (''pss'', ''vpvs''), (''s'', ''strike''), (''d'', ''dip''), (''a'', ''ani''),
      (''tr'', ''trend''), (''pl'', ''plunge'')]"

definition get_att :: "string \<Rightarrow> Model \<Rightarrow> real list" where
  "get_att a m =
     (if a = ''thickn'' then thickn m else if a = ''vp'' then vp m
      else if a = ''vs'' then vs m else if a = ''vpvs'' then vpvs m
      else if a = ''strike'' then strike m else if a = ''dip'' then dip m
      else if a = ''ani'' then ani m else if a = ''trend'' then trend m
      else plunge m)"

definition set_att :: "string \<Rightarrow> real list \<Rightarrow> Model \<Rightarrow> Model" where
  "set_att a xs m =
     (if a = ''thickn'' then m\<lparr>thickn := xs\<rparr> else if a = ''vp'' then m\<lparr>vp := xs\<rparr>
      else if a = ''vs'' then m\<lparr>vs := xs\<rparr> else if a = ''vpvs'' then m\<lparr>vpvs := xs\<rparr>
      else if a = ''strike'' then m\<lparr>strike := xs\<rparr> else if a = ''dip'' then m\<lparr>dip := xs\<rparr>
      else if a = ''ani'' then m\<lparr>ani := xs\<rparr> else if a = ''trend'' then m\<lparr>trend := xs\<rparr>
      else m\<lparr>plunge := xs\<rparr>)"

text \<open>The three branches \<^verbatim>\<open>=\<close>, \<^verbatim>\<open>+=\<close> and \<^verbatim>\<open>-=\<close>.\<close>

definition apply_sign :: "char \<Rightarrow> real \<Rightarrow> real \<Rightarrow> real" where
  "apply_sign sign old inc =
     (if sign = CHR ''='' then inc
      else if sign = CHR ''+'' then old + inc
      else if sign = CHR ''-'' then old - inc
      else old)"

text \<open>
  The body of the loop of \<^verbatim>\<open>Model.change\<close> once the command is taken apart: the key
  \<open>att\<close>, the layer, the sign and the value.
\<close>

definition apply_directive :: "string \<Rightarrow> nat \<Rightarrow> char \<Rightarrow> real \<Rightarrow> Model \<Rightarrow> Model outcome" where
  "apply_directive att lay sign inc0 m =
     (let inc = (if att \<in> set [''t'', ''vp'', ''vs''] then inc0 * 1000 else inc0);
          fix = (if att = ''psp'' then Some ''vs''
                 else if att = ''pss'' then Some ''vp'' else None)
      in case ATT att of
           None \<Rightarrow> Raises KeyError m
         | Some a \<Rightarrow>
             if \<not> lay < length (get_att a m) then Raises IndexError m
             else
               let m1 = set_att a ((get_att a m)[lay := apply_sign sign (get_att a m ! lay) inc]) m
               in if \<not> lay < length (flag m1) then Raises IndexError m1
                  else
                    let m2 = m1\<lparr>flag := (flag m1)[lay := 1]\<rparr>
                    in if \<not> lay < length (ani m2) then Raises IndexError m2
                       else update fix
                              (if ani m2 ! lay \<noteq> 0 then m2\<lparr>flag := (flag m2)[lay := 0]\<rparr>
                               else m2))"

text \<open>
  \<^verbatim>\<open>Model.change\<close>. Python's \<^verbatim>\<open>int\<close> and \<^verbatim>\<open>float\<close>, which read the layer and the value,
  are parameters: \<open>int_of\<close> and \<open>float_of\<close>. The text handed to \<open>int_of\<close> begins with a
  digit whenever it can be read at all, so the layer is never negative.
\<close>

fun change_loop ::
  "(string \<Rightarrow> error + nat) \<Rightarrow> (string \<Rightarrow> error + real) \<Rightarrow> nat option \<Rightarrow> string list \<Rightarrow>
   Model \<Rightarrow> Model outcome" where
  "change_loop int_of float_of n [] m = Returns m"
| "change_loop int_of float_of n (command # rest) m =
     (if command = [] then change_loop int_of float_of n rest m
      else case find_sign command of
        (sign, [attlay, inc_text]) \<Rightarrow>
          (case loop_index n attlay of
             None \<Rightarrow> Raises UnboundLocalError m
           | Some k \<Rightarrow>
               (case int_of (drop k attlay) of
                  Inl e \<Rightarrow> Raises e m
                | Inr lay \<Rightarrow>
                    (case float_of inc_text of
                       Inl e \<Rightarrow> Raises e m
                     | Inr inc \<Rightarrow>
                         (case apply_directive (strip (take k attlay)) lay sign inc m of
                            Raises e m' \<Rightarrow> Raises e m'
                          | Returns m' \<Rightarrow> change_loop int_of float_of (Some k) rest m'))))
      | (sign, _) \<Rightarrow> Raises ValueError m)"

definition change ::
  "(string \<Rightarrow> error + nat) \<Rightarrow> (string \<Rightarrow> error + real) \<Rightarrow> string \<Rightarrow> Model \<Rightarrow> Model outcome" where
  "change int_of float_of commands m =
     change_loop int_of float_of None (split_on CHR '';'' commands) m"

text \<open>
  Readers of a run of decimal digits, on which Python's \<^verbatim>\<open>int\<close> and \<^verbatim>\<open>float\<close> agree with
  them; they stand in for the two parameters where a command is run on an example.
\<close>

definition digits_int :: "string \<Rightarrow> error + nat" where
  "digits_int s =
     (if s \<noteq> [] \<and> list_all is_digit s
      then Inr (foldl (\<lambda>a c. 10 * a + (of_char c - 48)) 0 s)
      else Inl ValueError)"

definition digits_float :: "string \<Rightarrow> error + real" where
  "digits_float s = (case digits_int s of Inl e \<Rightarrow> Inl e | Inr k \<Rightarrow> Inr (real k))"

subsection \<open>The cache of filter coefficients\<close>

text \<open>
  The dictionary \<^verbatim>\<open>cached_coefficients\<close> of the module, keyed by the order and the tuple
  of corners. Beside it the state keeps the keys \<^verbatim>\<open>signal.butter\<close> has been called with,
  in order, which is what counting its calls observes. The design function is a parameter:
  it is told how many times it has been called before, so that nothing is assumed of two
  of its results being the same, and it may raise.
\<close>

type_synonym coefs = "real list \<times> real list"
type_synonym cache_key = "int \<times> real list"




subsection \<open>What the claims are stated with\<close>

text \<open>The exception a constructor call ends with, if it ends with one.\<close>

definition failure :: "error + 'a \<Rightarrow> error option" where
  "failure r = (case r of Inl e \<Rightarrow> Some e | Inr _ \<Rightarrow> None)"

text \<open>The state an object is left in by a call, however the call ended.\<close>

fun state_of :: "'s outcome \<Rightarrow> 's" where
  "state_of (Returns s) = s"
| "state_of (Raises e s) = s"

text \<open>The per-layer arrays of a model all have as many entries as the model has layers.\<close>

definition equal_length :: "Model \<Rightarrow> bool" where
  "equal_length m \<longleftrightarrow>
     int (length (thickn m)) = nlay m \<and> int (length (rho m)) = nlay m \<and>
     int (length (vp m)) = nlay m \<and> int (length (vs m)) = nlay m \<and>
     int (length (vpvs m)) = nlay m \<and> int (length (flag m)) = nlay m \<and>
     int (length (ani m)) = nlay m \<and> int (length (trend m)) = nlay m \<and>
     int (length (plunge m)) = nlay m \<and> int (length (strike m)) = nlay m \<and>
     int (length (dip m)) = nlay m"


text \<open>
  The mirror as the specification words it: each user array padded with zeros to the
  capacity, the four angles converted from degrees to radians.
\<close>

definition pad_to :: "nat \<Rightarrow> 'a \<Rightarrow> 'a list \<Rightarrow> 'a list" where
  "pad_to k z xs = xs @ replicate (k - length xs) z"

definition radians :: "real \<Rightarrow> real" where
  "radians x = x * pi / 180"

definition mirror_in_sync :: "Model \<Rightarrow> bool" where
  "mirror_in_sync m \<longleftrightarrow>
     fthickn m = pad_to (nat (maxlay m)) 0 (thickn m) \<and>
     frho m = pad_to (nat (maxlay m)) (Some 0) (rho m) \<and>
     fvp m = pad_to (nat (maxlay m)) 0 (vp m) \<and>
     fvs m = pad_to (nat (maxlay m)) 0 (vs m) \<and>
     fflag m = pad_to (nat (maxlay m)) 0 (map real_of_int (flag m)) \<and>
     fani m = pad_to (nat (maxlay m)) 0 (ani m) \<and>
     ftrend m = pad_to (nat (maxlay m)) 0 (map radians (trend m)) \<and>
     fplunge m = pad_to (nat (maxlay m)) 0 (map radians (plunge m)) \<and>
     fstrike m = pad_to (nat (maxlay m)) 0 (map radians (strike m)) \<and>
     fdip m = pad_to (nat (maxlay m)) 0 (map radians (dip m)) \<and>
     length (fthickn m) = nat (maxlay m)"

text \<open>The average of \<open>xs\<close> weighted by the thicknesses \<open>ts\<close>.\<close>

definition weighted_average :: "real list \<Rightarrow> real list \<Rightarrow> real" where
  "weighted_average ts xs = sum_list (map (\<lambda>(x, t). x * t) (zip xs ts)) / sum_list ts"







definition returned_at :: "cache_key \<Rightarrow> (cache_key \<times> (error + coefs)) list \<Rightarrow> bool" where
  "returned_at k krs \<longleftrightarrow> (\<exists>(k', r) \<in> set krs. k' = k \<and> \<not> isl r)"


subsection \<open>Properties of the ray geometry\<close>

lemma Geometry_init_fields:
  assumes "Geometry_init baz0 slow0 dx0 dy0 maxtr = Inr g"
  shows "geom g = (if length (as_list baz0) \<noteq> length (as_list slow0)
                   then concat (map (\<lambda>s. map (\<lambda>b. (b, s)) (as_list baz0)) (as_list slow0))
                   else zip (as_list baz0) (as_list slow0))"
    and "ntr g = length (geom g)"
    and "fill_offsets (ntr g) dx0 = Inr (dx g)"
    and "fill_offsets (ntr g) dy0 = Inr (dy g)"
    and "geom g \<noteq> []"
  using assms
  by (auto simp: Geometry_init_def Let_def split: if_splits sum.splits)

lemma length_grid:
  "length (concat (map (\<lambda>s. map (\<lambda>b. (b, s)) bs) ss)) = length bs * length ss"
  by (induction ss) auto




lemma failure_Some: "failure r = Some e \<longleftrightarrow> r = Inl e"
  by (cases r) (simp_all add: failure_def)

lemma fill_offsets_nonempty:
  "offs \<noteq> [] \<Longrightarrow>
   fill_offsets n offs = Inr (if length offs = n then offs else replicate n (hd offs))"
  by (cases offs) (simp_all add: fill_offsets_def)

lemma fill_offsets_empty: "0 < n \<Longrightarrow> fill_offsets n [] = Inl IndexError"
  by (simp add: fill_offsets_def)

lemma fill_offsets_InrD:
  "fill_offsets n offs = Inr r \<Longrightarrow> 0 < n \<Longrightarrow>
   offs \<noteq> [] \<and> r = (if length offs = n then offs else replicate n (hd offs))"
  by (cases offs) (auto simp: fill_offsets_def split: if_splits)

lemma grid_empty:
  "(if length bs \<noteq> length ss then concat (map (\<lambda>s. map (\<lambda>b. (b, s)) bs) ss) else zip bs ss) = []
   \<longleftrightarrow> bs = [] \<or> ss = []"
proof (cases "length bs = length ss")
  case True
  then show ?thesis by (cases bs; cases ss) auto
next
  case False
  have "length (concat (map (\<lambda>s. map (\<lambda>b. (b, s)) bs) ss)) = length bs * length ss"
    by (rule length_grid)
  then have "concat (map (\<lambda>s. map (\<lambda>b. (b, s)) bs) ss) = [] \<longleftrightarrow> bs = [] \<or> ss = []"
    by (metis length_0_conv mult_is_0)
  with False show ?thesis by simp
qed

lemma Geometry_init_failure:
  fixes baz0 slow0 :: "real arg"
  defines "n \<equiv> length (if length (as_list baz0) \<noteq> length (as_list slow0)
               then concat (map (\<lambda>s. map (\<lambda>b. (b, s)) (as_list baz0)) (as_list slow0))
               else zip (as_list baz0) (as_list slow0))"
  assumes "as_list baz0 \<noteq> []" "as_list slow0 \<noteq> []"
  shows "0 < n"
    and "failure (Geometry_init baz0 slow0 dx0 dy0 maxtr) =
     (case fill_offsets n dx0 of
        Inl e \<Rightarrow> Some e
      | Inr _ \<Rightarrow>
         (case fill_offsets n dy0 of
            Inl e \<Rightarrow> Some e
          | Inr _ \<Rightarrow> (case np_zeros (maxtr - int n) of Inl e \<Rightarrow> Some e | Inr _ \<Rightarrow> None)))"
proof -
  define g where "g = (if length (as_list baz0) \<noteq> length (as_list slow0)
               then concat (map (\<lambda>s. map (\<lambda>b. (b, s)) (as_list baz0)) (as_list slow0))
               else zip (as_list baz0) (as_list slow0))"
  from assms(2,3) grid_empty [of "as_list baz0" "as_list slow0"] have g: "g \<noteq> []"
    unfolding g_def by blast
  have n: "n = length g" by (simp only: n_def g_def)
  from g show "0 < n" by (simp add: n)
  show "failure (Geometry_init baz0 slow0 dx0 dy0 maxtr) =
     (case fill_offsets n dx0 of
        Inl e \<Rightarrow> Some e
      | Inr _ \<Rightarrow>
         (case fill_offsets n dy0 of
            Inl e \<Rightarrow> Some e
          | Inr _ \<Rightarrow> (case np_zeros (maxtr - int n) of Inl e \<Rightarrow> Some e | Inr _ \<Rightarrow> None)))"
    unfolding Geometry_init_def Let_def g_def [symmetric] n
    using g by (simp add: failure_def split: sum.splits)
qed

lemma Geometry_init_no_samples:
  assumes "as_list baz0 = [] \<or> as_list slow0 = []"
  shows "Geometry_init baz0 slow0 dx0 dy0 maxtr = Inl ValueError"
  using assms grid_empty [of "as_list baz0" "as_list slow0"]
  by (simp add: Geometry_init_def Let_def)

text \<open>
  C10. When the constructor returns, neither offset array was empty, and each of them is
  the array that was given if that has as many entries as there are samples, and otherwise,
  whatever its length, that many copies of its first element. Offset arrays that are not
  empty raise nothing of their own: with them the constructor fails exactly when it fails
  with the default offsets \<^verbatim>\<open>[0]\<close> and \<^verbatim>\<open>[0]\<close>, and with the same exception. An
  empty offset array makes the constructor raise \<^verbatim>\<open>IndexError\<close> whenever there is a
  sample; without a backazimuth or without a slowness the constructor raises
  \<^verbatim>\<open>ValueError\<close> before it reads the offsets.
\<close>

theorem Geometry_init_offsets_filled:
  "(\<forall>g. Geometry_init baz0 slow0 dx0 dy0 maxtr = Inr g \<longrightarrow>
        dx0 \<noteq> [] \<and> dy0 \<noteq> [] \<and>
        dx g = (if length dx0 = ntr g then dx0 else replicate (ntr g) (hd dx0)) \<and>
        dy g = (if length dy0 = ntr g then dy0 else replicate (ntr g) (hd dy0))) \<and>
   (dx0 \<noteq> [] \<and> dy0 \<noteq> [] \<longrightarrow>
      failure (Geometry_init baz0 slow0 dx0 dy0 maxtr) =
      failure (Geometry_init baz0 slow0 [0] [0] maxtr)) \<and>
   (as_list baz0 \<noteq> [] \<and> as_list slow0 \<noteq> [] \<and> (dx0 = [] \<or> dy0 = []) \<longrightarrow>
      Geometry_init baz0 slow0 dx0 dy0 maxtr = Inl IndexError) \<and>
   (as_list baz0 = [] \<or> as_list slow0 = [] \<longrightarrow>
      Geometry_init baz0 slow0 dx0 dy0 maxtr = Inl ValueError)"
proof -
  have returned: "dx0 \<noteq> [] \<and> dy0 \<noteq> [] \<and>
        dx g = (if length dx0 = ntr g then dx0 else replicate (ntr g) (hd dx0)) \<and>
        dy g = (if length dy0 = ntr g then dy0 else replicate (ntr g) (hd dy0))"
    if g: "Geometry_init baz0 slow0 dx0 dy0 maxtr = Inr g" for g
  proof -
    note F = Geometry_init_fields [OF g]
    from F(2,5) have n: "0 < ntr g" by simp
    from fill_offsets_InrD [OF F(3) n] fill_offsets_InrD [OF F(4) n]
    show ?thesis by simp
  qed
  have same: "failure (Geometry_init baz0 slow0 dx0 dy0 maxtr) =
        failure (Geometry_init baz0 slow0 [0] [0] maxtr)"
    if ne: "dx0 \<noteq> [] \<and> dy0 \<noteq> []"
  proof (cases "as_list baz0 = [] \<or> as_list slow0 = []")
    case True
    then show ?thesis by (simp add: Geometry_init_no_samples)
  next
    case False
    then have s: "as_list baz0 \<noteq> []" "as_list slow0 \<noteq> []" by simp_all
    from ne show ?thesis
      by (simp add: Geometry_init_failure(2) [OF s] fill_offsets_nonempty)
  qed
  have empty: "Geometry_init baz0 slow0 dx0 dy0 maxtr = Inl IndexError"
    if a: "as_list baz0 \<noteq> [] \<and> as_list slow0 \<noteq> [] \<and> (dx0 = [] \<or> dy0 = [])"
  proof -
    from a have s: "as_list baz0 \<noteq> []" "as_list slow0 \<noteq> []" by simp_all
    note n = Geometry_init_failure(1) [OF s]
    have "failure (Geometry_init baz0 slow0 dx0 dy0 maxtr) = Some IndexError"
    proof (cases "dx0 = []")
      case True
      then show ?thesis
        by (simp add: Geometry_init_failure(2) [OF s] fill_offsets_empty [OF n])
    next
      case False
      with a have "dy0 = []" by simp
      with False show ?thesis
        by (simp add: Geometry_init_failure(2) [OF s] fill_offsets_empty [OF n]
              fill_offsets_nonempty)
    qed
    then show ?thesis by (simp only: failure_Some)
  qed
  from returned same empty Geometry_init_no_samples [of baz0 slow0 dx0 dy0 maxtr]
  show ?thesis by blast
qed

theorem Geometry_init_offsets_filled_witness:
  "(\<exists>g. Geometry_init (Array [0, 90, 180]) (Array [4/100, 6/100]) [5, 7] [1] 500 = Inr g \<and>
        ntr g = 6 \<and> dx g = [5, 5, 5, 5, 5, 5] \<and> dy g = [1, 1, 1, 1, 1, 1]) \<and>
   failure (Geometry_init (Array [0, 90, 180]) (Array [4/100, 6/100]) [5, 7] [1] 500) = None \<and>
   failure (Geometry_init (Array [0, 90, 180]) (Array [4/100, 6/100]) [5, 7] [1] 4)
     = Some ValueError \<and>
   Geometry_init (Array [0, 90, 180]) (Array [4/100, 6/100]) [5, 7] [] 500 = Inl IndexError \<and>
   Geometry_init (Array []) (Array [4/100, 6/100]) [] [] 500 = Inl ValueError"
proof (intro conjI)
  have "\<exists>g. Geometry_init (Array [0, 90, 180]) (Array [4/100, 6/100]) [5, 7] [1] 500 = Inr g \<and> ntr g = 6"
    by (simp add: Geometry_init_def fill_offsets_def np_zeros_def)
  then obtain g where
    g: "Geometry_init (Array [0, 90, 180]) (Array [4/100, 6/100]) [5, 7] [1] 500 = Inr g"
    and n: "ntr g = 6" by blast
  have "dx g = [5, 5, 5, 5, 5, 5] \<and> dy g = [1, 1, 1, 1, 1, 1]"
    using Geometry_init_offsets_filled
            [of "Array [0, 90, 180]" "Array [4/100, 6/100]" "[5, 7]" "[1]" 500] g n
    by (simp add: numeral_eq_Suc)
  with g n show "\<exists>g. Geometry_init (Array [0, 90, 180]) (Array [4/100, 6/100]) [5, 7] [1] 500 = Inr g \<and>
        ntr g = 6 \<and> dx g = [5, 5, 5, 5, 5, 5] \<and> dy g = [1, 1, 1, 1, 1, 1]" by blast
next
  have "failure (Geometry_init (Array [0, 90, 180]) (Array [4/100, 6/100]) [0] [0] 500) = None"
    by (simp add: Geometry_init_def fill_offsets_def np_zeros_def failure_def)
  then show "failure (Geometry_init (Array [0, 90, 180]) (Array [4/100, 6/100]) [5, 7] [1] 500) = None"
    using Geometry_init_offsets_filled
            [of "Array [0, 90, 180]" "Array [4/100, 6/100]" "[5, 7]" "[1]" 500]
    by simp
next
  have "failure (Geometry_init (Array [0, 90, 180]) (Array [4/100, 6/100]) [0] [0] 4)
          = Some ValueError"
    by (simp add: Geometry_init_def fill_offsets_def np_zeros_def failure_def)
  then show "failure (Geometry_init (Array [0, 90, 180]) (Array [4/100, 6/100]) [5, 7] [1] 4)
          = Some ValueError"
    using Geometry_init_offsets_filled
            [of "Array [0, 90, 180]" "Array [4/100, 6/100]" "[5, 7]" "[1]" 4]
    by simp
next
  show "Geometry_init (Array [0, 90, 180]) (Array [4/100, 6/100]) [5, 7] [] 500 = Inl IndexError"
    using Geometry_init_offsets_filled
            [of "Array [0, 90, 180]" "Array [4/100, 6/100]" "[5, 7]" "[]" 500]
    by simp
next
  show "Geometry_init (Array []) (Array [4/100, 6/100]) [] [] 500 = Inl ValueError"
    using Geometry_init_offsets_filled
            [of "Array []" "Array [4/100, 6/100]" "[]" "[]" 500]
    by simp
qed

text \<open>
  The claim as it was stated covers an empty offset array too, which has no first element:
  there the constructor raises \<^verbatim>\<open>IndexError\<close>.
\<close>

theorem Geometry_init_empty_offsets_counterexample:
  "Geometry_init (Scalar 0) (Scalar (6/100)) [] [0] 500 = Inl IndexError"
  by (simp add: Geometry_init_def fill_offsets_def)

subsection \<open>Properties of the model\<close>

lemma np_bcast_fails:
  "length xs \<noteq> length ys \<Longrightarrow> length xs \<noteq> 1 \<Longrightarrow> length ys \<noteq> 1 \<Longrightarrow> np_bcast f xs ys = Inl ValueError"
  by (simp add: np_bcast_def)

lemma np_bcast_ok:
  "length xs = length ys \<or> length xs = 1 \<or> length ys = 1 \<Longrightarrow> \<exists>q. np_bcast f xs ys = Inr q"
  by (auto simp: np_bcast_def)

lemma np_bcast_same:
  "length xs = length ys \<Longrightarrow> np_bcast f xs ys = Inr (map (\<lambda>(x, y). f x y) (zip xs ys))"
  by (simp add: np_bcast_def)

text \<open>
  C2. The constructor compares no lengths itself. It fails with \<^verbatim>\<open>ValueError\<close> when the
  quotient of the two velocity arrays cannot be formed, their lengths differing and neither
  being 1, and when there are more thicknesses than the capacity holds. In every other
  case it returns a model, with as many layers as there are thicknesses and with the
  thicknesses and velocities as they were given.
\<close>

theorem Model_init_velocity_lengths:
  "(length vp0 \<noteq> length vs0 \<and> length vp0 \<noteq> 1 \<and> length vs0 \<noteq> 1 \<longrightarrow>
      Model_init thickn0 rho0 vp0 vs0 flag0 ani0 trend0 plunge0 strike0 dip0 maxlay0
        = Inl ValueError) \<and>
   (maxlay0 < int (length thickn0) \<longrightarrow>
      Model_init thickn0 rho0 vp0 vs0 flag0 ani0 trend0 plunge0 strike0 dip0 maxlay0
        = Inl ValueError) \<and>
   ((length vp0 = length vs0 \<or> length vp0 = 1 \<or> length vs0 = 1) \<and>
    int (length thickn0) \<le> maxlay0 \<longrightarrow>
      (\<exists>m. Model_init thickn0 rho0 vp0 vs0 flag0 ani0 trend0 plunge0 strike0 dip0 maxlay0
              = Inr m \<and>
           nlay m = int (length thickn0) \<and> thickn m = thickn0 \<and> vp m = vp0 \<and> vs m = vs0))"
proof (intro conjI impI)
  assume "length vp0 \<noteq> length vs0 \<and> length vp0 \<noteq> 1 \<and> length vs0 \<noteq> 1"
  then have "np_bcast (/) vp0 vs0 = Inl ValueError" by (simp add: np_bcast_fails)
  then show "Model_init thickn0 rho0 vp0 vs0 flag0 ani0 trend0 plunge0 strike0 dip0 maxlay0
        = Inl ValueError" by (simp add: Model_init_def)
next
  assume a: "maxlay0 < int (length thickn0)"
  then have z: "np_zeros (maxlay0 - int (length thickn0)) = Inl ValueError"
    by (simp add: np_zeros_def)
  show "Model_init thickn0 rho0 vp0 vs0 flag0 ani0 trend0 plunge0 strike0 dip0 maxlay0
        = Inl ValueError"
  proof (cases "length vp0 = length vs0 \<or> length vp0 = 1 \<or> length vs0 = 1")
    case True
    then obtain q where q: "np_bcast (/) vp0 vs0 = Inr q" using np_bcast_ok by blast
    show ?thesis by (simp add: Model_init_def q set_fattributes_def z Let_def)
  next
    case False
    then have "np_bcast (/) vp0 vs0 = Inl ValueError" by (simp add: np_bcast_fails)
    then show ?thesis by (simp add: Model_init_def)
  qed
next
  assume a: "(length vp0 = length vs0 \<or> length vp0 = 1 \<or> length vs0 = 1) \<and>
    int (length thickn0) \<le> maxlay0"
  then obtain q where q: "np_bcast (/) vp0 vs0 = Inr q" using np_bcast_ok by blast
  from a have z: "np_zeros (maxlay0 - int (length thickn0)) = Inr (replicate (nat (maxlay0 - int (length thickn0))) 0)"
    by (simp add: np_zeros_def)
  show "\<exists>m. Model_init thickn0 rho0 vp0 vs0 flag0 ani0 trend0 plunge0 strike0 dip0 maxlay0
              = Inr m \<and>
           nlay m = int (length thickn0) \<and> thickn m = thickn0 \<and> vp m = vp0 \<and> vs m = vs0"
    by (simp add: Model_init_def q set_fattributes_def z Let_def)
qed

theorem Model_init_velocity_lengths_witness:
  "Model_init [1, 2, 3] None [6, 8] [3, 4, 5] (Scalar 1) None None None None None 15 = Inl ValueError \<and>
   Model_init [1, 2, 3] None [6, 8, 9] [3, 4, 5] (Scalar 1) None None None None None 2 = Inl ValueError \<and>
   (\<exists>m. Model_init [30000, 0] (Some [2800, 3300]) [6000, 8000] [3000, 4000] (Scalar 1) None None None None None 15 = Inr m
      \<and> nlay m = 2 \<and> vp m = [6000, 8000])"
proof -
  have "Model_init [1, 2, 3] None [6, 8] [3, 4, 5] (Scalar 1) None None None None None 15 = Inl ValueError"
    using Model_init_velocity_lengths [of "[6, 8]" "[3, 4, 5]" "[1, 2, 3]" None "Scalar 1" None None None None None 15]
    by simp
  moreover have "Model_init [1, 2, 3] None [6, 8, 9] [3, 4, 5] (Scalar 1) None None None None None 2 = Inl ValueError"
    using Model_init_velocity_lengths [of "[6, 8, 9]" "[3, 4, 5]" "[1, 2, 3]" None "Scalar 1" None None None None None 2]
    by simp
  moreover have "\<exists>m. Model_init [30000, 0] (Some [2800, 3300]) [6000, 8000] [3000, 4000] (Scalar 1) None None None None None 15 = Inr m
      \<and> nlay m = 2 \<and> vp m = [6000, 8000]"
    using Model_init_velocity_lengths [of "[6000, 8000]" "[3000, 4000]" "[30000, 0]" "Some [2800, 3300]" "Scalar 1" None None None None None 15]
    by auto
  ultimately show ?thesis by blast
qed

text \<open>
  The claim as it was stated fails: two thicknesses with three velocities of each kind
  give a model of two layers whose velocity arrays have three entries.
\<close>

theorem Model_init_mismatch_counterexample:
  "(case Model_init [30000, 0] (Some [2800, 3300]) [6000, 8000, 9000] [3600, 4500, 5000]
           (Scalar 1) None None None None None 15 of
      Inl e \<Rightarrow> None
    | Inr m \<Rightarrow> Some (nlay m, length (thickn m), length (vp m), length (vs m)))
   = Some (2, 2, 3, 3)"
  by (simp add: Model_init_def np_bcast_def set_fattributes_def np_zeros_def)





lemma for_useratts_ReturnsD:
  assumes "for_useratts fr fo fi m = Returns m'"
  shows "\<exists>a1 a2 a3 a4 a5 a6 a7 a8 a9 a10 a11.
           fr ''thickn'' (thickn m) = Returns a1 \<and> fo (rho m) = Returns a2 \<and>
           fr ''vp'' (vp m) = Returns a3 \<and> fr ''vs'' (vs m) = Returns a4 \<and>
           fr ''vpvs'' (vpvs m) = Returns a5 \<and> fi (flag m) = Returns a6 \<and>
           fr ''ani'' (ani m) = Returns a7 \<and> fr ''trend'' (trend m) = Returns a8 \<and>
           fr ''plunge'' (plunge m) = Returns a9 \<and> fr ''strike'' (strike m) = Returns a10 \<and>
           fr ''dip'' (dip m) = Returns a11 \<and>
           m' = m\<lparr>thickn := a1, rho := a2, vp := a3, vs := a4, vpvs := a5, flag := a6,
                   ani := a7, trend := a8, plunge := a9, strike := a10, dip := a11\<rparr>"
  using assms
  by (auto simp: for_useratts_def then_do_def on_field_def split: outcome.splits)













lemma then_do_Returns:
  "then_do r f = Returns s' \<longleftrightarrow> (\<exists>s. r = Returns s \<and> f s = Returns s')"
  by (cases r) (simp_all add: then_do_def)


lemma nat_diff_length: "int k = n \<Longrightarrow> nat (M - n) = nat M - k"
  by auto

lemma set_fattributes_user:
  "thickn (state_of (set_fattributes m)) = thickn m"
  "rho (state_of (set_fattributes m)) = rho m"
  "vp (state_of (set_fattributes m)) = vp m"
  "vs (state_of (set_fattributes m)) = vs m"
  "vpvs (state_of (set_fattributes m)) = vpvs m"
  "flag (state_of (set_fattributes m)) = flag m"
  "ani (state_of (set_fattributes m)) = ani m"
  "trend (state_of (set_fattributes m)) = trend m"
  "plunge (state_of (set_fattributes m)) = plunge m"
  "strike (state_of (set_fattributes m)) = strike m"
  "dip (state_of (set_fattributes m)) = dip m"
  "nlay (state_of (set_fattributes m)) = nlay m"
  "maxlay (state_of (set_fattributes m)) = maxlay m"
  by (simp_all add: set_fattributes_def np_zeros_def)


lemma equal_length_set_fattributes:
  "equal_length (state_of (set_fattributes m)) = equal_length m"
  by (simp add: equal_length_def set_fattributes_user)

lemma map_radians_pad:
  "map (\<lambda>x. x * pi / 180) (xs @ replicate k 0) = map radians xs @ replicate k 0"
  by (simp add: radians_def)

lemma set_fattributes_sync:
  assumes "equal_length m" "set_fattributes m = Returns m'"
  shows "mirror_in_sync m'"
proof -
  from assms(2) have le: "nlay m \<le> maxlay m" and m': "m' = state_of (set_fattributes m)"
    by (auto simp: set_fattributes_def np_zeros_def split: if_splits)
  from assms(1) have L:
    "length (rho m) = length (thickn m)" "length (vp m) = length (thickn m)"
    "length (vs m) = length (thickn m)" "length (flag m) = length (thickn m)"
    "length (ani m) = length (thickn m)" "length (trend m) = length (thickn m)"
    "length (plunge m) = length (thickn m)" "length (strike m) = length (thickn m)"
    "length (dip m) = length (thickn m)"
    by (simp_all add: equal_length_def)
  from assms(1) have k: "nat (maxlay m - nlay m) = nat (maxlay m) - length (thickn m)"
    by (simp add: equal_length_def nat_diff_length)
  have full: "length (thickn m) + (nat (maxlay m) - length (thickn m)) = nat (maxlay m)"
    using le assms(1) by (simp add: equal_length_def) linarith
  show ?thesis
    unfolding m' mirror_in_sync_def pad_to_def
    using le full
    by (simp add: set_fattributes_def np_zeros_def radians_def k L)
qed


lemma update_Returns_source:
  assumes "update fix m = Returns m'"
  shows "\<exists>q. set_fattributes q = Returns m' \<and> nlay q = nlay m \<and> maxlay q = maxlay m \<and>
             thickn q = thickn m \<and> rho q = rho m \<and> flag q = flag m \<and> ani q = ani m \<and>
             trend q = trend m \<and> plunge q = plunge m \<and> strike q = strike m \<and> dip q = dip m \<and>
             ((\<exists>v. q = m\<lparr>vs := v\<rparr> \<and> np_bcast (/) (vp m) (vpvs m) = Inr v) \<or>
              (\<exists>v. q = m\<lparr>vp := v\<rparr> \<and> np_bcast (*) (vs m) (vpvs m) = Inr v) \<or>
              (\<exists>v. q = m\<lparr>vpvs := v\<rparr> \<and> np_bcast (/) (vp m) (vs m) = Inr v))"
  using assms
  by (auto simp: update_def split: if_splits sum.splits)

lemma np_bcast_length:
  "np_bcast f xs ys = Inr v \<Longrightarrow> length xs = length ys \<Longrightarrow> length v = length xs"
  by (auto simp: np_bcast_def split: if_splits)

lemma update_sync:
  assumes "equal_length m" "update fix m = Returns m'"
  shows "mirror_in_sync m' \<and> equal_length m'"
proof -
  from update_Returns_source [OF assms(2)] obtain q where
    q: "set_fattributes q = Returns m'" "nlay q = nlay m"
      "thickn q = thickn m" "rho q = rho m" "flag q = flag m" "ani q = ani m"
      "trend q = trend m" "plunge q = plunge m" "strike q = strike m" "dip q = dip m"
    and alt: "(\<exists>v. q = m\<lparr>vs := v\<rparr> \<and> np_bcast (/) (vp m) (vpvs m) = Inr v) \<or>
              (\<exists>v. q = m\<lparr>vp := v\<rparr> \<and> np_bcast (*) (vs m) (vpvs m) = Inr v) \<or>
              (\<exists>v. q = m\<lparr>vpvs := v\<rparr> \<and> np_bcast (/) (vp m) (vs m) = Inr v)"
    by blast
  from assms(1) have l: "length (vp m) = length (vs m)" "length (vp m) = length (vpvs m)"
    "length (vs m) = length (vpvs m)"
    by (simp_all add: equal_length_def)
  have eq: "equal_length q"
    using alt
  proof (elim disjE exE conjE)
    fix v assume "q = m\<lparr>vs := v\<rparr>" "np_bcast (/) (vp m) (vpvs m) = Inr v"
    with np_bcast_length [of "(/)" "vp m" "vpvs m" v] l assms(1) show ?thesis
      by (simp add: equal_length_def)
  next
    fix v assume "q = m\<lparr>vp := v\<rparr>" "np_bcast (*) (vs m) (vpvs m) = Inr v"
    with np_bcast_length [of "(*)" "vs m" "vpvs m" v] l assms(1) show ?thesis
      by (simp add: equal_length_def)
  next
    fix v assume "q = m\<lparr>vpvs := v\<rparr>" "np_bcast (/) (vp m) (vs m) = Inr v"
    with np_bcast_length [of "(/)" "vp m" "vs m" v] l assms(1) show ?thesis
      by (simp add: equal_length_def)
  qed
  from q(1) have "m' = state_of (set_fattributes q)" by simp
  with eq set_fattributes_sync [OF eq q(1)] show ?thesis
    by (simp add: equal_length_set_fattributes)
qed








lemma length_halves:
  "n < length xs \<Longrightarrow> length (take n xs @ a # b # drop (Suc n) xs) = Suc (length xs)"
  by simp








subsection \<open>Properties of the cache of filter coefficients\<close>




lemma returned_at_iff: "returned_at k krs \<longleftrightarrow> (\<exists>c. (k, Inr c) \<in> set krs)"
proof
  assume "returned_at k krs"
  then obtain r where "(k, r) \<in> set krs" "\<not> isl r" by (auto simp: returned_at_def)
  then show "\<exists>c. (k, Inr c) \<in> set krs" by (cases r) auto
next
  assume "\<exists>c. (k, Inr c) \<in> set krs"
  then obtain c where "(k, Inr c) \<in> set krs" ..
  then show "returned_at k krs"
    unfolding returned_at_def by (rule bexI [rotated]) simp
qed












end
